theory Spec2Isabelle
  imports Main
begin

unbundle bit_operations_syntax

section \<open>Values of the program\<close>

text \<open>
  The adapter of \<^verbatim>\<open>pysftpserver/proxystorage.py\<close> forwards every request to a
  Paramiko client. Paths that arrive from the server are byte strings, names that
  come back from the client are text; both are held here as lists of characters,
  and \<open>bytes\<close> marks a value that went through \<^verbatim>\<open>.encode()\<close>.
\<close>

type_synonym path = string
type_synonym pystr = string
type_synonym handle = nat

datatype bytes = Bytes string

definition encode :: "pystr \<Rightarrow> bytes" where
  "encode f = Bytes f"

datatype val = IntV int | StrV pystr | NoneV

text \<open>
  The exceptions the adapter can see, each with the arguments its constructor was
  given. \<open>IOError\<close> stands for an \<^verbatim>\<open>IOError\<close> that is not an instance of \<^verbatim>\<open>OSError\<close>
  (Python 2, where both derive from \<^verbatim>\<open>EnvironmentError\<close>); \<open>OSError\<close> for an instance of
  \<^verbatim>\<open>OSError\<close> (in Python 3 every \<^verbatim>\<open>IOError\<close> is one); \<open>OtherError\<close> for an exception
  outside both families, named by its class. The attributes \<^verbatim>\<open>errno\<close> and \<^verbatim>\<open>strerror\<close> of
  an exception of the two families are its first two arguments when it was built
  from two or three, and \<^verbatim>\<open>None\<close> otherwise: \<^verbatim>\<open>IOError('Failure')\<close> has neither.
\<close>

datatype exn =
    IOError "val list"
  | OSError "val list"
  | OtherError string

fun args_errno :: "val list \<Rightarrow> val" where
  "args_errno [a, b] = a"
| "args_errno [a, b, c] = a"
| "args_errno args = NoneV"

fun args_strerror :: "val list \<Rightarrow> val" where
  "args_strerror [a, b] = b"
| "args_strerror [a, b, c] = b"
| "args_strerror args = NoneV"

section \<open>The \<^verbatim>\<open>os\<close> module\<close>

text \<open>
  The open flags and \<^verbatim>\<open>os.path.join\<close> belong to the platform, so they are a
  parameter of the model; \<open>posix\<close> is the Linux instance.
\<close>

record os_env =
  O_WRONLY :: int
  O_RDWR :: int
  O_CREAT :: int
  O_EXCL :: int
  O_TRUNC :: int
  O_APPEND :: int
  path_join :: "path \<Rightarrow> path \<Rightarrow> path"

definition posix_join :: "path \<Rightarrow> path \<Rightarrow> path" where
  "posix_join a b =
     (if b \<noteq> [] \<and> hd b = CHR ''/'' then b
      else if a = [] \<or> last a = CHR ''/'' then a @ b
      else a @ ''/'' @ b)"

definition posix :: os_env where
  "posix = \<lparr>O_WRONLY = 1, O_RDWR = 2, O_CREAT = 64, O_EXCL = 128, O_TRUNC = 512,
     O_APPEND = 1024, path_join = posix_join\<rparr>"

section \<open>Truth values of Python integers\<close>

definition truthy :: "int \<Rightarrow> bool" where
  "truthy x = (x \<noteq> 0)"

definition py_and :: "int \<Rightarrow> int \<Rightarrow> int" where
  "py_and a b = (if truthy a then b else a)"

definition py_or :: "int \<Rightarrow> int \<Rightarrow> int" where
  "py_or a b = (if truthy a then a else b)"

section \<open>Flag translator\<close>

definition flags_to_mode :: "os_env \<Rightarrow> int \<Rightarrow> int \<Rightarrow> string" where
  "flags_to_mode os flags mode =
     (let paramiko_mode =
        (if truthy (py_or (flags AND O_WRONLY os)
              (py_and (flags AND O_WRONLY os) (flags AND O_TRUNC os))) then ''w''
         else if truthy (py_and (flags AND O_RDWR os) (flags AND O_APPEND os)) then ''a+''
         else if truthy (py_and (flags AND O_RDWR os) (flags AND O_CREAT os)) then ''w+''
         else if truthy (flags AND O_APPEND os) then ''a''
         else if truthy (py_and (flags AND O_RDWR os) (flags AND O_TRUNC os)) then ''w+''
         else if truthy (flags AND O_RDWR os) then ''r+''
         else if truthy (flags AND O_CREAT os) then ''w''
         else ''r'')
      in if truthy (py_and (flags AND O_CREAT os) (flags AND O_EXCL os))
         then paramiko_mode @ ''x'' else paramiko_mode)"

subsection \<open>The decision table of the specification\<close>

text \<open>
  The specification gives the translation as an ordered table: each rule names the
  flag bits that must be set (rule 1 in two alternative forms) and its token; the
  first rule that matches wins, and the exclusive marker is added afterwards.
\<close>

datatype open_flag = WriteOnly | ReadWrite | Create | Exclusive | Truncate | Append

fun flag_bit :: "os_env \<Rightarrow> open_flag \<Rightarrow> int" where
  "flag_bit os WriteOnly = O_WRONLY os"
| "flag_bit os ReadWrite = O_RDWR os"
| "flag_bit os Create = O_CREAT os"
| "flag_bit os Exclusive = O_EXCL os"
| "flag_bit os Truncate = O_TRUNC os"
| "flag_bit os Append = O_APPEND os"

definition has_flag :: "os_env \<Rightarrow> int \<Rightarrow> open_flag \<Rightarrow> bool" where
  "has_flag os flags f = (flags AND flag_bit os f \<noteq> 0)"

definition decision_table :: "(open_flag list list \<times> string) list" where
  "decision_table =
     [([[WriteOnly], [WriteOnly, Truncate]], ''w''),
      ([[ReadWrite, Append]], ''a+''),
      ([[ReadWrite, Create]], ''w+''),
      ([[Append]], ''a''),
      ([[ReadWrite, Truncate]], ''w+''),
      ([[ReadWrite]], ''r+''),
      ([[Create]], ''w''),
      ([[]], ''r'')]"

definition rule_matches :: "os_env \<Rightarrow> int \<Rightarrow> open_flag list list \<Rightarrow> bool" where
  "rule_matches os flags alternatives = list_ex (list_all (has_flag os flags)) alternatives"

fun first_match :: "os_env \<Rightarrow> int \<Rightarrow> (open_flag list list \<times> string) list \<Rightarrow> string option" where
  "first_match os flags [] = None"
| "first_match os flags ((alternatives, token) # rules) =
     (if rule_matches os flags alternatives then Some token else first_match os flags rules)"

definition table_mode :: "os_env \<Rightarrow> int \<Rightarrow> string option" where
  "table_mode os flags =
     map_option
       (\<lambda>token. if has_flag os flags Create \<and> has_flag os flags Exclusive
                then token @ ''x'' else token)
       (first_match os flags decision_table)"

section \<open>The remote client\<close>

text \<open>
  The Paramiko client and the file objects it hands out are outside the adapter.
  Every method the adapter invokes on them is a \<open>call\<close>; the environment answers a
  call from its own state \<open>'w\<close> with a reply or an exception. The operand of
  \<^verbatim>\<open>stat\<close> and \<^verbatim>\<open>setstat\<close> is a path or, in the handle variants, a file object; the
  adapter passes it on as it is, so the calls carry an \<open>operand\<close>. What a call on
  an operand of the wrong kind does is the environment's answer.
\<close>

datatype operand = Path path | Handle handle

record sftp_attributes =
  st_size :: int
  st_uid :: int
  st_gid :: int
  st_mode :: int
  st_atime :: int
  st_mtime :: int

datatype call =
    ClientStat operand
  | ClientLstat operand
  | ClientTruncate operand val
  | ClientChown operand val val
  | ClientChmod operand val
  | ClientUtime operand val val
  | ClientListdir path
  | ClientOpen path string
  | ClientMkdir path int
  | ClientRmdir path
  | ClientRemove path
  | ClientRename path path
  | ClientSymlink path path
  | ClientReadlink path
  | HandleStat operand
  | HandleTruncate operand val
  | HandleChown operand val val
  | HandleChmod operand val
  | HandleUtime operand val val
  | HandleSeek handle int
  | HandleWrite handle bytes
  | HandleRead handle int
  | HandleClose handle

datatype reply =
    Nothing
  | Attributes sftp_attributes
  | Names "pystr list"
  | File handle
  | Data bytes
  | Text pystr

type_synonym 'w remote = "call \<Rightarrow> 'w \<Rightarrow> (exn + reply) \<times> 'w"

text \<open>The state threaded through the adapter: the calls made so far and the environment.\<close>

record 'w remote_state =
  trace :: "call list"
  world :: 'w

type_synonym ('a, 'w) action = "'w remote_state \<Rightarrow> (exn + 'a) \<times> 'w remote_state"

definition call_remote :: "'w remote \<Rightarrow> call \<Rightarrow> (reply, 'w) action" where
  "call_remote R c s =
     (case R c (world s) of (r, w) \<Rightarrow> (r, \<lparr>trace = trace s @ [c], world = w\<rparr>))"

definition succeed :: "'a \<Rightarrow> ('a, 'w) action" where
  "succeed v s = (Inr v, s)"

definition raise :: "exn \<Rightarrow> ('a, 'w) action" where
  "raise e s = (Inl e, s)"

text \<open>Statement sequencing: an exception of the first part skips the rest.\<close>

definition exn_bind :: "('a, 'w) action \<Rightarrow> ('a \<Rightarrow> ('b, 'w) action) \<Rightarrow> ('b, 'w) action" where
  "exn_bind m f s = (case m s of (Inl e, s') \<Rightarrow> (Inl e, s') | (Inr v, s') \<Rightarrow> f v s')"

text \<open>\<^verbatim>\<open>try: m except: handler\<close> with a bare \<^verbatim>\<open>except\<close>, which catches everything.\<close>

definition try_except :: "('a, 'w) action \<Rightarrow> ('a, 'w) action \<Rightarrow> ('a, 'w) action" where
  "try_except m handler s =
     (case m s of (Inl e, s') \<Rightarrow> handler s' | (Inr v, s') \<Rightarrow> (Inr v, s'))"

section \<open>Error normalizer\<close>

text \<open>
  \<^verbatim>\<open>except IOError as e\<close> catches both families of \<open>exn\<close> that carry an errno; an
  \<^verbatim>\<open>IOError\<close> that is no \<^verbatim>\<open>OSError\<close> is replaced by \<^verbatim>\<open>OSError(e.errno, e.strerror)\<close>,
  an \<^verbatim>\<open>OSError\<close> is raised again, and any other exception is not caught.
\<close>

definition exception_wrapper :: "('a, 'w) action \<Rightarrow> ('a, 'w) action" where
  "exception_wrapper method s =
     (case method s of
        (Inl (IOError args), s') \<Rightarrow>
          (Inl (OSError [args_errno args, args_strerror args]), s')
      | (Inl (OSError args), s') \<Rightarrow> (Inl (OSError args), s')
      | (Inl (OtherError name), s') \<Rightarrow> (Inl (OtherError name), s')
      | (Inr v, s') \<Rightarrow> (Inr v, s'))"

section \<open>Storage adapter\<close>

definition verify :: "path \<Rightarrow> bool" where
  "verify filename = True"

subsection \<open>stat\<close>

text \<open>
  \<^verbatim>\<open>filename if not parent else os.path.join(parent, filename)\<close>: a parent that is
  \<^verbatim>\<open>None\<close> or empty is falsy. \<^verbatim>\<open>os.path.join\<close> raises a \<^verbatim>\<open>TypeError\<close> on an operand
  that is no path.
\<close>

fun os_path_join :: "os_env \<Rightarrow> path \<Rightarrow> operand \<Rightarrow> (operand, 'w) action" where
  "os_path_join os a (Path b) = succeed (Path (path_join os a b))"
| "os_path_join os a (Handle h) = raise (OtherError ''TypeError'')"

definition stat_operand :: "os_env \<Rightarrow> operand \<Rightarrow> path option \<Rightarrow> (operand, 'w) action" where
  "stat_operand os filename parent =
     (case parent of
        None \<Rightarrow> succeed filename
      | Some d \<Rightarrow> if d = [] then succeed filename else os_path_join os d filename)"

text \<open>Reading \<^verbatim>\<open>_stat.st_size\<close> and the other fields of a reply that is no stat structure fails.\<close>

definition attributes_of :: "reply \<Rightarrow> (sftp_attributes, 'w) action" where
  "attributes_of r =
     (case r of Attributes st \<Rightarrow> succeed st | _ \<Rightarrow> raise (OtherError ''AttributeError''))"

definition stat_dict :: "sftp_attributes \<Rightarrow> val \<Rightarrow> (string \<rightharpoonup> val)" where
  "stat_dict st longname =
     [''size'' \<mapsto> IntV (st_size st),
      ''uid'' \<mapsto> IntV (st_uid st),
      ''gid'' \<mapsto> IntV (st_gid st),
      ''perm'' \<mapsto> IntV (st_mode st),
      ''atime'' \<mapsto> IntV (st_atime st),
      ''mtime'' \<mapsto> IntV (st_mtime st),
      ''longname'' \<mapsto> longname]"

text \<open>
  \<open>stat_to_longname\<close> lives in \<^verbatim>\<open>pysftpserver/stat_helpers.py\<close>; it is a parameter here:
  given the stat structure and the entry name it returns the listing line or raises.
  It is called after the query and outside its \<^verbatim>\<open>try\<close>.
\<close>

definition lift_result :: "exn + 'a \<Rightarrow> ('a, 'w) action" where
  "lift_result r s = (r, s)"

definition stat_method ::
  "'w remote \<Rightarrow> os_env \<Rightarrow> (sftp_attributes \<Rightarrow> operand \<Rightarrow> exn + pystr) \<Rightarrow>
   operand \<Rightarrow> path option \<Rightarrow> bool \<Rightarrow> bool \<Rightarrow> (string \<rightharpoonup> val, 'w) action" where
  "stat_method R os stat_to_longname filename parent lstat fstat =
     exn_bind
       (if \<not> lstat \<and> fstat then call_remote R (HandleStat filename)
        else if lstat then call_remote R (ClientLstat filename)
        else try_except
          (exn_bind (stat_operand os filename parent) (\<lambda>p. call_remote R (ClientStat p)))
          (exn_bind (stat_operand os filename parent) (\<lambda>p. call_remote R (ClientLstat p))))
       (\<lambda>r. exn_bind (attributes_of r)
          (\<lambda>st. exn_bind
             (if fstat then succeed NoneV
              else exn_bind (lift_result (stat_to_longname st filename))
                     (\<lambda>l. succeed (StrV l)))
             (\<lambda>longname. succeed (stat_dict st longname))))"

definition stat ::
  "'w remote \<Rightarrow> os_env \<Rightarrow> (sftp_attributes \<Rightarrow> operand \<Rightarrow> exn + pystr) \<Rightarrow>
   operand \<Rightarrow> path option \<Rightarrow> bool \<Rightarrow> bool \<Rightarrow> (string \<rightharpoonup> val, 'w) action" where
  "stat R os stat_to_longname filename parent lstat fstat =
     exception_wrapper (stat_method R os stat_to_longname filename parent lstat fstat)"

subsection \<open>setstat\<close>

definition contains :: "(string \<rightharpoonup> val) \<Rightarrow> string \<Rightarrow> bool" where
  "contains attrs k = (attrs k \<noteq> None)"

definition getitem :: "(string \<rightharpoonup> val) \<Rightarrow> string \<Rightarrow> (val, 'w) action" where
  "getitem attrs k =
     (case attrs k of Some v \<Rightarrow> succeed v | None \<Rightarrow> raise (OtherError ''KeyError''))"

definition setstat_method ::
  "'w remote \<Rightarrow> operand \<Rightarrow> (string \<rightharpoonup> val) \<Rightarrow> bool \<Rightarrow> (unit, 'w) action" where
  "setstat_method R filename attrs fsetstat =
     exn_bind
       (if contains attrs ''size'' \<and> \<not> fsetstat then
          exn_bind (getitem attrs ''size'')
            (\<lambda>size. call_remote R (ClientTruncate filename size))
        else if contains attrs ''size'' then
          exn_bind (getitem attrs ''size'')
            (\<lambda>size. call_remote R (HandleTruncate filename size))
        else succeed Nothing)
     (\<lambda>_. let chown = list_all (contains attrs) [''uid'', ''gid''] in
     exn_bind
       (if chown \<and> \<not> fsetstat then
          exn_bind (getitem attrs ''uid'') (\<lambda>uid. exn_bind (getitem attrs ''gid'')
            (\<lambda>gid. call_remote R (ClientChown filename uid gid)))
        else if chown then
          exn_bind (getitem attrs ''uid'') (\<lambda>uid. exn_bind (getitem attrs ''gid'')
            (\<lambda>gid. call_remote R (HandleChown filename uid gid)))
        else succeed Nothing)
     (\<lambda>_.
     exn_bind
       (if contains attrs ''perm'' \<and> \<not> fsetstat then
          exn_bind (getitem attrs ''perm'')
            (\<lambda>perm. call_remote R (ClientChmod filename perm))
        else if contains attrs ''perm'' then
          exn_bind (getitem attrs ''perm'')
            (\<lambda>perm. call_remote R (HandleChmod filename perm))
        else succeed Nothing)
     (\<lambda>_. let utime = list_all (contains attrs) [''atime'', ''mtime''] in
     exn_bind
       (if utime \<and> \<not> fsetstat then
          exn_bind (getitem attrs ''atime'') (\<lambda>atime. exn_bind (getitem attrs ''mtime'')
            (\<lambda>mtime. call_remote R (ClientUtime filename atime mtime)))
        else if utime then
          exn_bind (getitem attrs ''atime'') (\<lambda>atime. exn_bind (getitem attrs ''mtime'')
            (\<lambda>mtime. call_remote R (HandleUtime filename atime mtime)))
        else succeed Nothing)
     (\<lambda>_. succeed ()))))"

definition setstat ::
  "'w remote \<Rightarrow> operand \<Rightarrow> (string \<rightharpoonup> val) \<Rightarrow> bool \<Rightarrow> (unit, 'w) action" where
  "setstat R filename attrs fsetstat =
     exception_wrapper (setstat_method R filename attrs fsetstat)"

subsection \<open>opendir\<close>

text \<open>
  A generator expression evaluates its iterable when it is created and the element
  expression at each \<^verbatim>\<open>next\<close>: the generator holds the names still to come, and
  \<open>next_item\<close> encodes the first of them. \<open>None\<close> is \<^verbatim>\<open>StopIteration\<close>. \<open>drain\<close> is the
  loop that takes items until the generator stops, and returns the generator left.
\<close>

datatype generator = Generator "pystr list"

fun next_item :: "generator \<Rightarrow> (bytes \<times> generator) option" where
  "next_item (Generator []) = None"
| "next_item (Generator (f # fs)) = Some (encode f, Generator fs)"

definition pending :: "generator \<Rightarrow> nat" where
  "pending g = (case g of Generator fs \<Rightarrow> length fs)"

function drain :: "generator \<Rightarrow> bytes list \<times> generator" where
  "drain g =
     (case next_item g of
        None \<Rightarrow> ([], g)
      | Some (b, g') \<Rightarrow> (case drain g' of (bs, g'') \<Rightarrow> (b # bs, g'')))"
  by pat_completeness auto
termination
  by (relation "measure pending") (auto simp: pending_def elim!: next_item.elims)

declare drain.simps [simp del]

text \<open>\<^verbatim>\<open>listing + ['.', '..']\<close> needs a list.\<close>

definition names_of :: "reply \<Rightarrow> (pystr list, 'w) action" where
  "names_of r = (case r of Names fs \<Rightarrow> succeed fs | _ \<Rightarrow> raise (OtherError ''TypeError''))"

definition opendir_method :: "'w remote \<Rightarrow> path \<Rightarrow> (generator, 'w) action" where
  "opendir_method R filename =
     exn_bind (call_remote R (ClientListdir filename))
       (\<lambda>r. exn_bind (names_of r) (\<lambda>fs. succeed (Generator (fs @ [''.'', ''..'']))))"

definition opendir :: "'w remote \<Rightarrow> path \<Rightarrow> (generator, 'w) action" where
  "opendir R filename = exception_wrapper (opendir_method R filename)"

subsection \<open>open and the one-to-one forwards\<close>

definition open_method :: "'w remote \<Rightarrow> os_env \<Rightarrow> path \<Rightarrow> int \<Rightarrow> int \<Rightarrow> (reply, 'w) action" where
  "open_method R os filename flags mode =
     (let paramiko_mode = flags_to_mode os flags mode
      in call_remote R (ClientOpen filename paramiko_mode))"

definition open_file :: "'w remote \<Rightarrow> os_env \<Rightarrow> path \<Rightarrow> int \<Rightarrow> int \<Rightarrow> (reply, 'w) action" where
  "open_file R os filename flags mode = exception_wrapper (open_method R os filename flags mode)"

definition mkdir_method :: "'w remote \<Rightarrow> path \<Rightarrow> int \<Rightarrow> (unit, 'w) action" where
  "mkdir_method R filename mode =
     exn_bind (call_remote R (ClientMkdir filename mode)) (\<lambda>_. succeed ())"

definition mkdir :: "'w remote \<Rightarrow> path \<Rightarrow> int \<Rightarrow> (unit, 'w) action" where
  "mkdir R filename mode = exception_wrapper (mkdir_method R filename mode)"

definition rmdir_method :: "'w remote \<Rightarrow> path \<Rightarrow> (unit, 'w) action" where
  "rmdir_method R filename =
     exn_bind (call_remote R (ClientRmdir filename)) (\<lambda>_. succeed ())"

definition rmdir :: "'w remote \<Rightarrow> path \<Rightarrow> (unit, 'w) action" where
  "rmdir R filename = exception_wrapper (rmdir_method R filename)"

definition rm_method :: "'w remote \<Rightarrow> path \<Rightarrow> (unit, 'w) action" where
  "rm_method R filename =
     exn_bind (call_remote R (ClientRemove filename)) (\<lambda>_. succeed ())"

definition rm :: "'w remote \<Rightarrow> path \<Rightarrow> (unit, 'w) action" where
  "rm R filename = exception_wrapper (rm_method R filename)"

definition rename_method :: "'w remote \<Rightarrow> path \<Rightarrow> path \<Rightarrow> (unit, 'w) action" where
  "rename_method R oldpath newpath =
     exn_bind (call_remote R (ClientRename oldpath newpath)) (\<lambda>_. succeed ())"

definition rename :: "'w remote \<Rightarrow> path \<Rightarrow> path \<Rightarrow> (unit, 'w) action" where
  "rename R oldpath newpath = exception_wrapper (rename_method R oldpath newpath)"

definition symlink_method :: "'w remote \<Rightarrow> path \<Rightarrow> path \<Rightarrow> (unit, 'w) action" where
  "symlink_method R linkpath targetpath =
     exn_bind (call_remote R (ClientSymlink targetpath linkpath)) (\<lambda>_. succeed ())"

definition symlink :: "'w remote \<Rightarrow> path \<Rightarrow> path \<Rightarrow> (unit, 'w) action" where
  "symlink R linkpath targetpath = exception_wrapper (symlink_method R linkpath targetpath)"

text \<open>\<^verbatim>\<open>l.encode()\<close> needs a string; Paramiko answers \<^verbatim>\<open>None\<close> when the server names no target.\<close>

definition text_of :: "reply \<Rightarrow> (pystr, 'w) action" where
  "text_of r = (case r of Text l \<Rightarrow> succeed l | _ \<Rightarrow> raise (OtherError ''AttributeError''))"

definition readlink_method :: "'w remote \<Rightarrow> path \<Rightarrow> (bytes, 'w) action" where
  "readlink_method R filename =
     exn_bind (call_remote R (ClientReadlink filename))
       (\<lambda>r. exn_bind (text_of r) (\<lambda>l. succeed (encode l)))"

definition readlink :: "'w remote \<Rightarrow> path \<Rightarrow> (bytes, 'w) action" where
  "readlink R filename = exception_wrapper (readlink_method R filename)"

subsection \<open>Handle operations\<close>

text \<open>\<^verbatim>\<open>write\<close> and \<^verbatim>\<open>read\<close> carry no \<^verbatim>\<open>@exception_wrapper\<close>.\<close>

definition "write" :: "'w remote \<Rightarrow> handle \<Rightarrow> int \<Rightarrow> bytes \<Rightarrow> (bool, 'w) action" where
  "write R handle off chunk s =
     (case exn_bind (call_remote R (HandleSeek handle off))
             (\<lambda>_. call_remote R (HandleWrite handle chunk)) s of
        (Inl e, s') \<Rightarrow> (Inr False, s')
      | (Inr v, s') \<Rightarrow> (Inr True, s'))"

definition read :: "'w remote \<Rightarrow> handle \<Rightarrow> int \<Rightarrow> int \<Rightarrow> (reply, 'w) action" where
  "read R handle off size' =
     exn_bind (call_remote R (HandleSeek handle off))
       (\<lambda>_. call_remote R (HandleRead handle size'))"

definition close_method :: "'w remote \<Rightarrow> handle \<Rightarrow> (unit, 'w) action" where
  "close_method R handle =
     exn_bind (call_remote R (HandleClose handle)) (\<lambda>_. succeed ())"

definition close :: "'w remote \<Rightarrow> handle \<Rightarrow> (unit, 'w) action" where
  "close R handle = exception_wrapper (close_method R handle)"

section \<open>Notions of the specification\<close>

text \<open>
  The unified error family of the specification: \<open>normalized\<close> is the exception that
  stands for a failure in the \<^verbatim>\<open>OSError\<close> family. An \<^verbatim>\<open>OSError\<close> stands for itself; an
  \<^verbatim>\<open>IOError\<close> is rebuilt from its errno and strerror alone; an exception of another
  class has no counterpart there. \<open>errno\<close> and \<open>strerror\<close> read the two attributes.
\<close>

fun normalized :: "exn \<Rightarrow> exn" where
  "normalized (IOError args) = OSError [args_errno args, args_strerror args]"
| "normalized (OSError args) = OSError args"
| "normalized (OtherError name) = OtherError name"

fun os_error_family :: "exn \<Rightarrow> bool" where
  "os_error_family (OSError args) = True"
| "os_error_family (IOError args) = False"
| "os_error_family (OtherError name) = False"

fun errno :: "exn \<Rightarrow> val" where
  "errno (IOError args) = args_errno args"
| "errno (OSError args) = args_errno args"
| "errno (OtherError name) = NoneV"

fun strerror :: "exn \<Rightarrow> val" where
  "strerror (IOError args) = args_strerror args"
| "strerror (OSError args) = args_strerror args"
| "strerror (OtherError name) = NoneV"

text \<open>
  An attribute set carries a stat structure and a long name when it has exactly the
  seven fields of the specification, each with the value of the structure.
\<close>

definition carries_attributes :: "(string \<rightharpoonup> val) \<Rightarrow> sftp_attributes \<Rightarrow> val \<Rightarrow> bool" where
  "carries_attributes d st longname =
     (d ''size'' = Some (IntV (st_size st))
      \<and> d ''uid'' = Some (IntV (st_uid st))
      \<and> d ''gid'' = Some (IntV (st_gid st))
      \<and> d ''perm'' = Some (IntV (st_mode st))
      \<and> d ''atime'' = Some (IntV (st_atime st))
      \<and> d ''mtime'' = Some (IntV (st_mtime st))
      \<and> d ''longname'' = Some longname
      \<and> dom d = {''size'', ''uid'', ''gid'', ''perm'', ''atime'', ''mtime'', ''longname''})"

text \<open>
  The attribute categories of \<open>setstat\<close>, each with the call it stands for when its
  full key set is present, in the order of the specification; \<open>run_calls\<close> makes the
  calls of a list one after the other and stops at the first that fails.
\<close>

definition size_calls :: "operand \<Rightarrow> (string \<rightharpoonup> val) \<Rightarrow> bool \<Rightarrow> call list" where
  "size_calls filename attrs fsetstat =
     (case attrs ''size'' of
        None \<Rightarrow> []
      | Some n \<Rightarrow> [if fsetstat then HandleTruncate filename n else ClientTruncate filename n])"

definition owner_calls :: "operand \<Rightarrow> (string \<rightharpoonup> val) \<Rightarrow> bool \<Rightarrow> call list" where
  "owner_calls filename attrs fsetstat =
     (case (attrs ''uid'', attrs ''gid'') of
        (Some uid, Some gid) \<Rightarrow>
          [if fsetstat then HandleChown filename uid gid else ClientChown filename uid gid]
      | _ \<Rightarrow> [])"

definition perm_calls :: "operand \<Rightarrow> (string \<rightharpoonup> val) \<Rightarrow> bool \<Rightarrow> call list" where
  "perm_calls filename attrs fsetstat =
     (case attrs ''perm'' of
        None \<Rightarrow> []
      | Some perm \<Rightarrow> [if fsetstat then HandleChmod filename perm else ClientChmod filename perm])"

definition time_calls :: "operand \<Rightarrow> (string \<rightharpoonup> val) \<Rightarrow> bool \<Rightarrow> call list" where
  "time_calls filename attrs fsetstat =
     (case (attrs ''atime'', attrs ''mtime'') of
        (Some atime, Some mtime) \<Rightarrow>
          [if fsetstat then HandleUtime filename atime mtime else ClientUtime filename atime mtime]
      | _ \<Rightarrow> [])"

definition category_calls :: "operand \<Rightarrow> (string \<rightharpoonup> val) \<Rightarrow> bool \<Rightarrow> call list" where
  "category_calls filename attrs fsetstat =
     size_calls filename attrs fsetstat @ owner_calls filename attrs fsetstat
     @ perm_calls filename attrs fsetstat @ time_calls filename attrs fsetstat"

fun run_calls :: "'w remote \<Rightarrow> call list \<Rightarrow> (unit, 'w) action" where
  "run_calls R [] = succeed ()"
| "run_calls R (c # cs) = exn_bind (call_remote R c) (\<lambda>_. run_calls R cs)"

text \<open>The exception of the first call of a list that the environment fails, if any does.\<close>

fun first_failure :: "'w remote \<Rightarrow> call list \<Rightarrow> 'w \<Rightarrow> exn option" where
  "first_failure R [] w = None"
| "first_failure R (c # cs) w =
     (case R c w of (Inl e, w') \<Rightarrow> Some e | (Inr v, w') \<Rightarrow> first_failure R cs w')"

section \<open>A scripted environment\<close>

text \<open>
  An environment that plays back a prepared list of answers, one for each call,
  and answers \<^verbatim>\<open>None\<close> once the list is used up. It serves to run the adapter on
  concrete scenarios.
\<close>

definition scripted_remote :: "((exn + reply) list) remote" where
  "scripted_remote c w = (case w of [] \<Rightarrow> (Inr Nothing, []) | r # rs \<Rightarrow> (r, rs))"

definition start :: "'w \<Rightarrow> 'w remote_state" where
  "start w = \<lparr>trace = [], world = w\<rparr>"

definition link_attributes :: sftp_attributes where
  "link_attributes = \<lparr>st_size = 9, st_uid = 1000, st_gid = 1000, st_mode = 41471,
     st_atime = 1700000000, st_mtime = 1700000001\<rparr>"

text \<open>
  Two long-name helpers: one that answers with the entry name, and one that raises
  the \<^verbatim>\<open>KeyError\<close> of a lookup of the owner that finds no local account.
\<close>

definition entry_name :: "sftp_attributes \<Rightarrow> operand \<Rightarrow> exn + pystr" where
  "entry_name st filename = Inr (case filename of Path p \<Rightarrow> p | Handle h \<Rightarrow> [])"

definition no_local_account :: "sftp_attributes \<Rightarrow> operand \<Rightarrow> exn + pystr" where
  "no_local_account st filename = Inl (OtherError ''KeyError'')"

section \<open>Flag translator: theorems\<close>

text \<open>
  C1. For every flag set, \<open>flags_to_mode\<close> returns the token of the ordered decision
  table (write-only, alone or with truncate: \<open>w\<close>; read-write and append: \<open>a+\<close>;
  read-write and create: \<open>w+\<close>; append: \<open>a\<close>; read-write and truncate: \<open>w+\<close>;
  read-write: \<open>r+\<close>; create: \<open>w\<close>; otherwise \<open>r\<close>), the first matching rule winning,
  with \<open>x\<close> appended to the chosen token when both the create and the exclusive
  bit are set.
\<close>

theorem flags_to_mode_decision_table:
  "table_mode os flags = Some (flags_to_mode os flags mode)"
  by (simp add: table_mode_def decision_table_def rule_matches_def has_flag_def
      flags_to_mode_def Let_def truthy_def py_and_def py_or_def)

theorem flags_to_mode_decision_table_witness:
  "table_mode posix 193 = Some (flags_to_mode posix 193 420)
   \<and> flags_to_mode posix 193 420 = ''wx''
   \<and> flags_to_mode posix 1026 0 = ''a+''
   \<and> flags_to_mode posix 66 0 = ''w+''
   \<and> flags_to_mode posix 1024 0 = ''a''
   \<and> flags_to_mode posix 514 0 = ''w+''
   \<and> flags_to_mode posix 2 0 = ''r+''
   \<and> flags_to_mode posix 64 0 = ''w''
   \<and> flags_to_mode posix 0 0 = ''r''"
  using flags_to_mode_decision_table [of posix 193 420]
  by (simp add: flags_to_mode_def Let_def truthy_def py_and_def py_or_def posix_def)

section \<open>Running the actions\<close>

lemma call_remote_result:
  "R c (world s) = (r, w) \<Longrightarrow> call_remote R c s = (r, \<lparr>trace = trace s @ [c], world = w\<rparr>)"
  by (simp add: call_remote_def)

lemma exception_wrapper_result:
  "m s = (r, s') \<Longrightarrow> exception_wrapper m s = (map_sum normalized id r, s')"
  by (cases r; simp add: exception_wrapper_def split: exn.splits)

lemma exception_wrapper_fst:
  "fst (exception_wrapper m s) = map_sum normalized id (fst (m s))"
  by (cases "m s") (simp add: exception_wrapper_result)

lemma exception_wrapper_snd:
  "snd (exception_wrapper m s) = snd (m s)"
  by (cases "m s") (simp add: exception_wrapper_result)

lemma forward_result:
  "R c (world s) = (r, w) \<Longrightarrow>
   exn_bind (call_remote R c) (\<lambda>_. succeed ()) s =
     (map_sum id (\<lambda>_. ()) r, \<lparr>trace = trace s @ [c], world = w\<rparr>)"
  by (cases r) (simp_all add: exn_bind_def call_remote_def succeed_def)

section \<open>stat: theorems\<close>

lemma stat_operand_path:
  "path_join os [] p = p \<Longrightarrow>
   stat_operand os (Path p) parent s =
     (Inr (Path (case parent of None \<Rightarrow> p | Some d \<Rightarrow> path_join os d p)), s)"
  by (simp add: stat_operand_def succeed_def split: option.split)

lemma stat_dict_carries: "carries_attributes (stat_dict st longname) st longname"
  by (auto simp: carries_attributes_def stat_dict_def)

lemma exn_bind_Inr: "m s = (Inr v, s') \<Longrightarrow> exn_bind m f s = f v s'"
  by (simp add: exn_bind_def)

lemma exn_bind_Inl: "m s = (Inl e, s') \<Longrightarrow> exn_bind m f s = (Inl e, s')"
  by (simp add: exn_bind_def)

lemma longname_result:
  "exn_bind
     (if fstat then succeed NoneV
      else exn_bind (lift_result (stl st filename)) (\<lambda>l. succeed (StrV l)))
     (\<lambda>longname. succeed (stat_dict st longname)) s
   = (if fstat then Inr (stat_dict st NoneV)
      else map_sum id (\<lambda>l. stat_dict st (StrV l)) (stl st filename), s)"
  by (cases "stl st filename") (simp_all add: exn_bind_def succeed_def lift_result_def)

lemma stat_query_answers:
  assumes "query s = (Inr (Attributes st), s')"
  shows "exception_wrapper
     (exn_bind query
       (\<lambda>r. exn_bind (attributes_of r)
          (\<lambda>st. exn_bind
             (if fstat then succeed NoneV
              else exn_bind (lift_result (stl st filename)) (\<lambda>l. succeed (StrV l)))
             (\<lambda>longname. succeed (stat_dict st longname))))) s
   = (if fstat then Inr (stat_dict st NoneV)
      else map_sum normalized (\<lambda>l. stat_dict st (StrV l)) (stl st filename), s')"
proof -
  let ?finish = "\<lambda>r. exn_bind (attributes_of r)
          (\<lambda>st. exn_bind
             (if fstat then succeed NoneV
              else exn_bind (lift_result (stl st filename)) (\<lambda>l. succeed (StrV l)))
             (\<lambda>longname. succeed (stat_dict st longname)))"
  have a: "attributes_of (Attributes st) s' = (Inr st, s')"
    by (simp add: attributes_of_def succeed_def)
  have "exn_bind query ?finish s = ?finish (Attributes st) s'"
    using assms by (rule exn_bind_Inr)
  also have "\<dots> = (if fstat then Inr (stat_dict st NoneV)
      else map_sum id (\<lambda>l. stat_dict st (StrV l)) (stl st filename), s')"
    using a by (simp add: exn_bind_Inr longname_result)
  finally show ?thesis
    by (cases "stl st filename") (simp_all add: exception_wrapper_result)
qed

lemma stat_query_fails:
  assumes "query s = (Inl e, s')"
  shows "exception_wrapper (exn_bind query f) s = (Inl (normalized e), s')"
proof -
  have "exn_bind query f s = (Inl e, s')"
    using assms by (rule exn_bind_Inl)
  then show ?thesis
    by (simp add: exception_wrapper_result)
qed

lemma default_query:
  fixes R :: "'w remote"
  assumes "\<And>s' :: 'w remote_state. stat_operand os filename parent s' = (Inr t, s')"
  shows "try_except
      (exn_bind (stat_operand os filename parent) (\<lambda>p. call_remote R (ClientStat p)))
      (exn_bind (stat_operand os filename parent) (\<lambda>p. call_remote R (ClientLstat p))) s
    = (case R (ClientStat t) (world s) of
         (Inr r, wa) \<Rightarrow> (Inr r, \<lparr>trace = trace s @ [ClientStat t], world = wa\<rparr>)
       | (Inl e, wa) \<Rightarrow>
           (case R (ClientLstat t) wa of
              (r, wb) \<Rightarrow> (r, \<lparr>trace = trace s @ [ClientStat t, ClientLstat t], world = wb\<rparr>)))"
proof -
  obtain r wa where a: "R (ClientStat t) (world s) = (r, wa)"
    by (cases "R (ClientStat t) (world s)")
  obtain r' wb where b: "R (ClientLstat t) wa = (r', wb)"
    by (cases "R (ClientLstat t) wa")
  show ?thesis
    by (cases r) (simp_all add: try_except_def exn_bind_def assms call_remote_def a b)
qed


lemma stat_default_answers:
  fixes R :: "'w remote"
  assumes "\<And>s' :: 'w remote_state. stat_operand os filename parent s' = (Inr t, s')"
    and "R (ClientStat t) (world s) = (Inr (Attributes st), wa)"
  shows "stat R os stl filename parent False False s =
     (map_sum normalized (\<lambda>l. stat_dict st (StrV l)) (stl st filename),
      \<lparr>trace = trace s @ [ClientStat t], world = wa\<rparr>)"
proof -
  let ?query = "try_except
      (exn_bind (stat_operand os filename parent) (\<lambda>p. call_remote R (ClientStat p)))
      (exn_bind (stat_operand os filename parent) (\<lambda>p. call_remote R (ClientLstat p)))"
  have "?query s = (Inr (Attributes st), \<lparr>trace = trace s @ [ClientStat t], world = wa\<rparr>)"
    using assms(2) by (simp add: default_query [OF assms(1)])
  from stat_query_answers [where query = ?query and s = s and fstat = False, OF this]
  show ?thesis
    by (simp add: stat_def stat_method_def)
qed

lemma stat_fallback_answers:
  fixes R :: "'w remote"
  assumes "\<And>s' :: 'w remote_state. stat_operand os filename parent s' = (Inr t, s')"
    and "R (ClientStat t) (world s) = (Inl e, wa)"
    and "R (ClientLstat t) wa = (Inr (Attributes st), wb)"
  shows "stat R os stl filename parent False False s =
     (map_sum normalized (\<lambda>l. stat_dict st (StrV l)) (stl st filename),
      \<lparr>trace = trace s @ [ClientStat t, ClientLstat t], world = wb\<rparr>)"
proof -
  let ?query = "try_except
      (exn_bind (stat_operand os filename parent) (\<lambda>p. call_remote R (ClientStat p)))
      (exn_bind (stat_operand os filename parent) (\<lambda>p. call_remote R (ClientLstat p)))"
  have "?query s =
      (Inr (Attributes st), \<lparr>trace = trace s @ [ClientStat t, ClientLstat t], world = wb\<rparr>)"
    using assms(2,3) by (simp add: default_query [OF assms(1)])
  from stat_query_answers [where query = ?query and s = s and fstat = False, OF this]
  show ?thesis
    by (simp add: stat_def stat_method_def)
qed

lemma stat_fallback_fails:
  fixes R :: "'w remote"
  assumes "\<And>s' :: 'w remote_state. stat_operand os filename parent s' = (Inr t, s')"
    and "R (ClientStat t) (world s) = (Inl e, wa)"
    and "R (ClientLstat t) wa = (Inl e', wb)"
  shows "stat R os stl filename parent False False s =
     (Inl (normalized e'), \<lparr>trace = trace s @ [ClientStat t, ClientLstat t], world = wb\<rparr>)"
proof -
  let ?query = "try_except
      (exn_bind (stat_operand os filename parent) (\<lambda>p. call_remote R (ClientStat p)))
      (exn_bind (stat_operand os filename parent) (\<lambda>p. call_remote R (ClientLstat p)))"
  have "?query s = (Inl e', \<lparr>trace = trace s @ [ClientStat t, ClientLstat t], world = wb\<rparr>)"
    using assms(2,3) by (simp add: default_query [OF assms(1)])
  from stat_query_fails [where query = ?query and s = s, OF this]
  show ?thesis
    by (simp add: stat_def stat_method_def)
qed

text \<open>
  C3, as stated, fails: the long name is computed after the query and outside its
  \<^verbatim>\<open>try\<close>, so when the full stat fails and the lstat answers, an exception of the
  helper still leaves \<open>stat\<close>, although the fallback did not fail.
\<close>

theorem stat_fallback_counterexample:
  "scripted_remote (ClientStat (Path ''/home/u/link''))
        [Inl (IOError [IntV 2, StrV ''No such file'']), Inr (Attributes link_attributes)]
     = (Inl (IOError [IntV 2, StrV ''No such file'']), [Inr (Attributes link_attributes)])
   \<and> scripted_remote (ClientLstat (Path ''/home/u/link'')) [Inr (Attributes link_attributes)]
     = (Inr (Attributes link_attributes), [])
   \<and> stat scripted_remote posix no_local_account (Path ''link'') (Some ''/home/u'') False False
        (start [Inl (IOError [IntV 2, StrV ''No such file'']), Inr (Attributes link_attributes)])
     = (Inl (OtherError ''KeyError''),
        \<lparr>trace = [ClientStat (Path ''/home/u/link''), ClientLstat (Path ''/home/u/link'')],
         world = []\<rparr>)"
proof -
  have op: "\<And>s' :: (exn + reply) list remote_state.
      stat_operand posix (Path ''link'') (Some ''/home/u'') s' = (Inr (Path ''/home/u/link''), s')"
    by (simp add: stat_operand_def succeed_def posix_def posix_join_def)
  show ?thesis
    by (simp add: stat_fallback_answers [OF op, where e = "IOError [IntV 2, StrV ''No such file'']"
          and wa = "[Inr (Attributes link_attributes)]" and st = link_attributes and wb = "[]"]
        scripted_remote_def start_def no_local_account_def)
qed

text \<open>
  C3, amended. In its default variant (\<open>lstat\<close> and \<open>fstat\<close> both false) \<open>stat\<close> on a path
  first asks the client for a full stat of the path, joined with the parent when one
  is given. When that call fails, for whatever reason, the failure is dropped and the
  client is asked for an lstat of the same path. A failure of this second call reaches
  the caller, and so does a failure of the long-name helper, which runs after the
  query. When the helper returns, the result is the attribute set of the structure
  that answered (that of the link, when the target is missing): its size, uid, gid,
  mode, atime and mtime and the long name, and nothing else. The hypothesis on
  \<open>path_join\<close> is the behaviour of \<^verbatim>\<open>os.path.join\<close> on an empty first component.
\<close>

theorem stat_default_falls_back_to_lstat:
  fixes R :: "'w remote"
  assumes "path_join os [] p = p"
    and "t = Path (case parent of None \<Rightarrow> p | Some d \<Rightarrow> path_join os d p)"
  shows "(R (ClientStat t) (world s) = (Inr (Attributes st), wa)
          \<and> stl st (Path p) = Inr name \<longrightarrow>
            (\<exists>d. stat R os stl (Path p) parent False False s =
                   (Inr d, \<lparr>trace = trace s @ [ClientStat t], world = wa\<rparr>)
               \<and> carries_attributes d st (StrV name)))
    \<and> (R (ClientStat t) (world s) = (Inl e, wa)
          \<and> R (ClientLstat t) wa = (Inr (Attributes st), wb)
          \<and> stl st (Path p) = Inr name \<longrightarrow>
            (\<exists>d. stat R os stl (Path p) parent False False s =
                   (Inr d, \<lparr>trace = trace s @ [ClientStat t, ClientLstat t], world = wb\<rparr>)
               \<and> carries_attributes d st (StrV name)))
    \<and> (R (ClientStat t) (world s) = (Inl e, wa)
          \<and> R (ClientLstat t) wa = (Inl e', wb) \<longrightarrow>
            stat R os stl (Path p) parent False False s =
              (Inl (normalized e'),
               \<lparr>trace = trace s @ [ClientStat t, ClientLstat t], world = wb\<rparr>))
    \<and> (R (ClientStat t) (world s) = (Inl e, wa)
          \<and> R (ClientLstat t) wa = (Inr (Attributes st), wb)
          \<and> stl st (Path p) = Inl x \<longrightarrow>
            stat R os stl (Path p) parent False False s =
              (Inl (normalized x),
               \<lparr>trace = trace s @ [ClientStat t, ClientLstat t], world = wb\<rparr>))
    \<and> (R (ClientStat t) (world s) = (Inr (Attributes st), wa)
          \<and> stl st (Path p) = Inl x \<longrightarrow>
            stat R os stl (Path p) parent False False s =
              (Inl (normalized x), \<lparr>trace = trace s @ [ClientStat t], world = wa\<rparr>))"
proof -
  have op: "\<And>s' :: 'w remote_state. stat_operand os (Path p) parent s' = (Inr t, s')"
    using assms by (simp add: stat_operand_path)
  show ?thesis
    by (intro conjI impI; elim conjE)
      (simp_all add: stat_default_answers [OF op] stat_fallback_answers [OF op]
        stat_fallback_fails [OF op] stat_dict_carries)
qed

theorem stat_default_falls_back_to_lstat_witness:
  "path_join posix [] ''link'' = ''link''
   \<and> scripted_remote (ClientStat (Path ''/home/u/link''))
        (world (start [Inl (IOError [IntV 2, StrV ''No such file'']),
                       Inr (Attributes link_attributes)]))
       = (Inl (IOError [IntV 2, StrV ''No such file'']), [Inr (Attributes link_attributes)])
   \<and> scripted_remote (ClientLstat (Path ''/home/u/link'')) [Inr (Attributes link_attributes)]
       = (Inr (Attributes link_attributes), [])
   \<and> entry_name link_attributes (Path ''link'') = Inr ''link''
   \<and> (\<exists>d. stat scripted_remote posix entry_name (Path ''link'') (Some ''/home/u'') False False
             (start [Inl (IOError [IntV 2, StrV ''No such file'']),
                     Inr (Attributes link_attributes)])
           = (Inr d,
              \<lparr>trace = [ClientStat (Path ''/home/u/link''), ClientLstat (Path ''/home/u/link'')],
               world = []\<rparr>)
         \<and> map d [''size'', ''uid'', ''gid'', ''perm'', ''atime'', ''mtime'', ''longname'']
           = [Some (IntV 9), Some (IntV 1000), Some (IntV 1000), Some (IntV 41471),
              Some (IntV 1700000000), Some (IntV 1700000001), Some (StrV ''link'')]
         \<and> dom d = {''size'', ''uid'', ''gid'', ''perm'', ''atime'', ''mtime'', ''longname''})"
  using stat_default_falls_back_to_lstat
      [where os = posix and p = "''link''" and parent = "Some ''/home/u''"
        and t = "Path ''/home/u/link''" and R = scripted_remote and stl = entry_name
        and s = "start [Inl (IOError [IntV 2, StrV ''No such file'']),
                        Inr (Attributes link_attributes)]"
        and e = "IOError [IntV 2, StrV ''No such file'']"
        and wa = "[Inr (Attributes link_attributes)]" and st = link_attributes and wb = "[]"
        and name = "''link''"]
  by (simp add: posix_def posix_join_def scripted_remote_def start_def entry_name_def
      carries_attributes_def link_attributes_def)

section \<open>write: theorems\<close>

lemma write_cases:
  "write R h off chunk s =
     (case R (HandleSeek h off) (world s) of
        (Inl e, wa) \<Rightarrow> (Inr False, \<lparr>trace = trace s @ [HandleSeek h off], world = wa\<rparr>)
      | (Inr v, wa) \<Rightarrow>
          (case R (HandleWrite h chunk) wa of
             (Inl e, wb) \<Rightarrow>
               (Inr False, \<lparr>trace = trace s @ [HandleSeek h off, HandleWrite h chunk], world = wb\<rparr>)
           | (Inr v', wb) \<Rightarrow>
               (Inr True, \<lparr>trace = trace s @ [HandleSeek h off, HandleWrite h chunk], world = wb\<rparr>)))"
  by (simp add: write_def exn_bind_def call_remote_def split: prod.splits sum.splits)

lemma close_result:
  "R (HandleClose h) (world s) = (r, w) \<Longrightarrow>
   close R h s = (map_sum normalized (\<lambda>_. ()) r, \<lparr>trace = trace s @ [HandleClose h], world = w\<rparr>)"
  by (cases r) (simp_all add: close_def close_method_def forward_result exception_wrapper_result)

text \<open>
  C4. \<open>write\<close> always returns a boolean and never raises: \<open>True\<close> exactly when both
  the seek and the write on the handle succeed, \<open>False\<close> otherwise. The only calls it
  makes are that seek and, after a successful seek, that write, so it never closes
  the handle; a \<open>close\<close> that follows is forwarded to the handle as usual.
\<close>

theorem write_reports_failure_as_false:
  "(\<exists>b. fst (write R h off chunk s) = Inr b)
   \<and> (fst (write R h off chunk s) = Inr True
        \<longleftrightarrow> (\<exists>v wa v' wb. R (HandleSeek h off) (world s) = (Inr v, wa)
               \<and> R (HandleWrite h chunk) wa = (Inr v', wb)))
   \<and> (trace (snd (write R h off chunk s)) = trace s @ [HandleSeek h off]
        \<or> trace (snd (write R h off chunk s)) = trace s @ [HandleSeek h off, HandleWrite h chunk])
   \<and> HandleClose h \<notin> set (drop (length (trace s)) (trace (snd (write R h off chunk s))))
   \<and> close R h (snd (write R h off chunk s)) =
       (map_sum normalized (\<lambda>_. ()) (fst (R (HandleClose h) (world (snd (write R h off chunk s))))),
        \<lparr>trace = trace (snd (write R h off chunk s)) @ [HandleClose h],
         world = snd (R (HandleClose h) (world (snd (write R h off chunk s))))\<rparr>)"
proof -
  have c: "close R h s' =
       (map_sum normalized (\<lambda>_. ()) (fst (R (HandleClose h) (world s'))),
        \<lparr>trace = trace s' @ [HandleClose h], world = snd (R (HandleClose h) (world s'))\<rparr>)" for s'
    by (rule close_result) simp
  show ?thesis
    by (intro conjI c) (auto simp: write_cases split: prod.splits sum.splits)
qed

theorem write_reports_failure_as_false_witness:
  "write scripted_remote 3 10 (Bytes ''data'')
       (start [Inr Nothing, Inl (OSError [IntV 5, StrV ''Input/output error'']), Inr Nothing])
     = (Inr False, \<lparr>trace = [HandleSeek 3 10, HandleWrite 3 (Bytes ''data'')], world = [Inr Nothing]\<rparr>)
   \<and> close scripted_remote 3
       (snd (write scripted_remote 3 10 (Bytes ''data'')
         (start [Inr Nothing, Inl (OSError [IntV 5, StrV ''Input/output error'']), Inr Nothing])))
     = (Inr (), \<lparr>trace = [HandleSeek 3 10, HandleWrite 3 (Bytes ''data''), HandleClose 3], world = []\<rparr>)
   \<and> fst (write scripted_remote 3 10 (Bytes ''data'') (start [Inr Nothing, Inr Nothing])) = Inr True"
  using write_reports_failure_as_false [where R = scripted_remote and h = 3 and off = 10
      and chunk = "Bytes ''data''"
      and s = "start [Inr Nothing, Inl (OSError [IntV 5, StrV ''Input/output error'']), Inr Nothing]"]
    write_reports_failure_as_false [where R = scripted_remote and h = 3 and off = 10
      and chunk = "Bytes ''data''" and s = "start [Inr Nothing, Inr Nothing]"]
  by (simp add: write_cases scripted_remote_def start_def)

section \<open>setstat: theorems\<close>

lemma exn_bind_succeed_left: "exn_bind (succeed v) f = f v"
  by (simp add: exn_bind_def succeed_def fun_eq_iff)

lemma exn_bind_succeed_unit: "exn_bind m (\<lambda>_. succeed ()) = (m :: (unit, 'w) action)"
  by (auto simp: exn_bind_def succeed_def fun_eq_iff split: prod.splits sum.splits)

lemma exn_bind_assoc: "exn_bind (exn_bind m f) g = exn_bind m (\<lambda>v. exn_bind (f v) g)"
  by (auto simp: exn_bind_def fun_eq_iff split: prod.splits sum.splits)

lemma run_calls_append:
  "run_calls R (xs @ ys) = exn_bind (run_calls R xs) (\<lambda>_. run_calls R ys)"
  by (induction xs) (simp_all add: exn_bind_succeed_left exn_bind_assoc)

lemma size_step:
  "exn_bind
     (if contains attrs ''size'' \<and> \<not> fsetstat then
        exn_bind (getitem attrs ''size'') (\<lambda>size. call_remote R (ClientTruncate filename size))
      else if contains attrs ''size'' then
        exn_bind (getitem attrs ''size'') (\<lambda>size. call_remote R (HandleTruncate filename size))
      else succeed Nothing) (\<lambda>_. k)
   = exn_bind (run_calls R (size_calls filename attrs fsetstat)) (\<lambda>_. k)"
  by (cases "attrs ''size''")
    (simp_all add: contains_def getitem_def size_calls_def exn_bind_succeed_left exn_bind_assoc)

lemma owner_step:
  "exn_bind
     (if list_all (contains attrs) [''uid'', ''gid''] \<and> \<not> fsetstat then
        exn_bind (getitem attrs ''uid'') (\<lambda>uid. exn_bind (getitem attrs ''gid'')
          (\<lambda>gid. call_remote R (ClientChown filename uid gid)))
      else if list_all (contains attrs) [''uid'', ''gid''] then
        exn_bind (getitem attrs ''uid'') (\<lambda>uid. exn_bind (getitem attrs ''gid'')
          (\<lambda>gid. call_remote R (HandleChown filename uid gid)))
      else succeed Nothing) (\<lambda>_. k)
   = exn_bind (run_calls R (owner_calls filename attrs fsetstat)) (\<lambda>_. k)"
  by (cases "attrs ''uid''"; cases "attrs ''gid''")
    (simp_all add: contains_def getitem_def owner_calls_def exn_bind_succeed_left exn_bind_assoc)

lemma perm_step:
  "exn_bind
     (if contains attrs ''perm'' \<and> \<not> fsetstat then
        exn_bind (getitem attrs ''perm'') (\<lambda>perm. call_remote R (ClientChmod filename perm))
      else if contains attrs ''perm'' then
        exn_bind (getitem attrs ''perm'') (\<lambda>perm. call_remote R (HandleChmod filename perm))
      else succeed Nothing) (\<lambda>_. k)
   = exn_bind (run_calls R (perm_calls filename attrs fsetstat)) (\<lambda>_. k)"
  by (cases "attrs ''perm''")
    (simp_all add: contains_def getitem_def perm_calls_def exn_bind_succeed_left exn_bind_assoc)

lemma time_step:
  "exn_bind
     (if list_all (contains attrs) [''atime'', ''mtime''] \<and> \<not> fsetstat then
        exn_bind (getitem attrs ''atime'') (\<lambda>atime. exn_bind (getitem attrs ''mtime'')
          (\<lambda>mtime. call_remote R (ClientUtime filename atime mtime)))
      else if list_all (contains attrs) [''atime'', ''mtime''] then
        exn_bind (getitem attrs ''atime'') (\<lambda>atime. exn_bind (getitem attrs ''mtime'')
          (\<lambda>mtime. call_remote R (HandleUtime filename atime mtime)))
      else succeed Nothing) (\<lambda>_. k)
   = exn_bind (run_calls R (time_calls filename attrs fsetstat)) (\<lambda>_. k)"
  by (cases "attrs ''atime''"; cases "attrs ''mtime''")
    (simp_all add: contains_def getitem_def time_calls_def exn_bind_succeed_left exn_bind_assoc)

lemma setstat_method_run_calls:
  "setstat_method R filename attrs fsetstat = run_calls R (category_calls filename attrs fsetstat)"
  unfolding setstat_method_def Let_def category_calls_def run_calls_append
  by (simp only: size_step owner_step perm_step time_step exn_bind_succeed_unit)

lemma run_calls_trace:
  "\<exists>k \<le> length cs. trace (snd (run_calls R cs s)) = trace s @ take k cs
     \<and> (fst (run_calls R cs s) = Inr () \<longrightarrow> k = length cs)
     \<and> (\<forall>e. fst (run_calls R cs s) = Inl e \<longrightarrow>
           0 < k \<and> (\<exists>w w'. R (cs ! (k - 1)) w = (Inl e, w')))"
proof (induction cs arbitrary: s)
  case Nil
  then show ?case by (simp add: succeed_def)
next
  case (Cons c cs)
  obtain r w where rc: "R c (world s) = (r, w)" by (cases "R c (world s)")
  show ?case
  proof (cases r)
    case (Inl e)
    then have "run_calls R (c # cs) s = (Inl e, \<lparr>trace = trace s @ [c], world = w\<rparr>)"
      using rc by (simp add: exn_bind_def call_remote_def)
    then show ?thesis using rc Inl by (intro exI [of _ 1]) auto
  next
    case (Inr v)
    let ?s = "\<lparr>trace = trace s @ [c], world = w\<rparr>"
    have step: "run_calls R (c # cs) s = run_calls R cs ?s"
      using rc Inr by (simp add: exn_bind_def call_remote_def)
    from Cons.IH [of ?s] obtain k where k: "k \<le> length cs"
      "trace (snd (run_calls R cs ?s)) = trace ?s @ take k cs"
      "fst (run_calls R cs ?s) = Inr () \<longrightarrow> k = length cs"
      "\<forall>e. fst (run_calls R cs ?s) = Inl e \<longrightarrow> 0 < k \<and> (\<exists>w w'. R (cs ! (k - 1)) w = (Inl e, w'))"
      by blast
    show ?thesis
      unfolding step using k by (intro exI [of _ "Suc k"]) (auto simp: nth_Cons')
  qed
qed


lemma setstat_run_calls:
  "setstat R filename attrs fsetstat =
     exception_wrapper (run_calls R (category_calls filename attrs fsetstat))"
  by (simp add: setstat_def setstat_method_run_calls fun_eq_iff)

lemma owner_calls_incomplete:
  "attrs ''uid'' = None \<or> attrs ''gid'' = None \<Longrightarrow> owner_calls filename attrs fsetstat = []"
  by (auto simp: owner_calls_def split: option.splits)

lemma time_calls_incomplete:
  "attrs ''atime'' = None \<or> attrs ''mtime'' = None \<Longrightarrow> time_calls filename attrs fsetstat = []"
  by (auto simp: time_calls_def split: option.splits)

lemma absent_key: "k \<notin> dom attrs \<Longrightarrow> attrs k = None"
  by auto

text \<open>
  C5. \<open>setstat\<close> makes the calls of the categories whose full key set is present, in
  the order size (truncate), uid with gid (chown), perm (chmod), atime with mtime
  (utime), and stops at the first call that fails, so the later categories are not
  applied: after a normal return the calls made are exactly those of the present
  categories in that order, and after a failure they are an initial part of them that
  ends with the failing call. A set with uid but no gid (or gid but no uid) has no
  ownership call; a set with only uid and gid makes the chown call alone; a set with
  only perm makes the chmod call alone.
\<close>

theorem setstat_applies_categories_in_order:
  "setstat R filename attrs fsetstat =
      exception_wrapper (run_calls R (category_calls filename attrs fsetstat))
   \<and> (fst (setstat R filename attrs fsetstat s) = Inr () \<longrightarrow>
        trace (snd (setstat R filename attrs fsetstat s)) =
          trace s @ category_calls filename attrs fsetstat)
   \<and> (fst (setstat R filename attrs fsetstat s) = Inl e \<longrightarrow>
        (\<exists>k < length (category_calls filename attrs fsetstat).
           trace (snd (setstat R filename attrs fsetstat s)) =
             trace s @ take (Suc k) (category_calls filename attrs fsetstat)
           \<and> (\<exists>e' w w'. R (category_calls filename attrs fsetstat ! k) w = (Inl e', w')
                 \<and> e = normalized e')))
   \<and> (attrs ''size'' = Some n \<and> attrs ''uid'' = Some uid \<and> attrs ''gid'' = Some gid
        \<and> attrs ''perm'' = Some perm \<and> attrs ''atime'' = Some atime
        \<and> attrs ''mtime'' = Some mtime \<longrightarrow>
        category_calls filename attrs fsetstat =
          (if fsetstat
           then [HandleTruncate filename n, HandleChown filename uid gid,
                 HandleChmod filename perm, HandleUtime filename atime mtime]
           else [ClientTruncate filename n, ClientChown filename uid gid,
                 ClientChmod filename perm, ClientUtime filename atime mtime]))
   \<and> (attrs ''uid'' = None \<or> attrs ''gid'' = None \<longrightarrow>
        owner_calls filename attrs fsetstat = [])
   \<and> (dom attrs = {''uid'', ''gid''} \<longrightarrow>
        (\<exists>uid gid. attrs ''uid'' = Some uid \<and> attrs ''gid'' = Some gid
           \<and> category_calls filename attrs fsetstat =
               [if fsetstat then HandleChown filename uid gid
                else ClientChown filename uid gid]))
   \<and> (dom attrs = {''perm''} \<longrightarrow>
        (\<exists>perm. attrs ''perm'' = Some perm
           \<and> category_calls filename attrs fsetstat =
               [if fsetstat then HandleChmod filename perm else ClientChmod filename perm]))"
proof -
  let ?plan = "category_calls filename attrs fsetstat"
  let ?run = "run_calls R ?plan s"
  obtain k where k: "k \<le> length ?plan" "trace (snd ?run) = trace s @ take k ?plan"
    "fst ?run = Inr () \<longrightarrow> k = length ?plan"
    "\<forall>e. fst ?run = Inl e \<longrightarrow> 0 < k \<and> (\<exists>w w'. R (?plan ! (k - 1)) w = (Inl e, w'))"
    using run_calls_trace [of ?plan R s] by blast
  have ok: "fst (setstat R filename attrs fsetstat s) = Inr () \<Longrightarrow>
      trace (snd (setstat R filename attrs fsetstat s)) = trace s @ ?plan"
  proof -
    assume "fst (setstat R filename attrs fsetstat s) = Inr ()"
    then have "fst ?run = Inr ()"
      by (cases "fst ?run") (simp_all add: setstat_run_calls exception_wrapper_fst)
    with k show ?thesis
      by (simp add: setstat_run_calls exception_wrapper_snd)
  qed
  have fail: "fst (setstat R filename attrs fsetstat s) = Inl e \<Longrightarrow>
      \<exists>k < length ?plan. trace (snd (setstat R filename attrs fsetstat s)) =
             trace s @ take (Suc k) ?plan
           \<and> (\<exists>e' w w'. R (?plan ! k) w = (Inl e', w') \<and> e = normalized e')"
  proof -
    assume "fst (setstat R filename attrs fsetstat s) = Inl e"
    then obtain e' where e': "fst ?run = Inl e'" "e = normalized e'"
      by (cases "fst ?run") (auto simp: setstat_run_calls exception_wrapper_fst)
    with k have "0 < k" and "\<exists>w w'. R (?plan ! (k - 1)) w = (Inl e', w')"
      by blast+
    with k e' show ?thesis
      by (intro exI [of _ "k - 1"]) (auto simp: setstat_run_calls exception_wrapper_snd)
  qed
  have full: "attrs ''size'' = Some n \<and> attrs ''uid'' = Some uid \<and> attrs ''gid'' = Some gid
        \<and> attrs ''perm'' = Some perm \<and> attrs ''atime'' = Some atime
        \<and> attrs ''mtime'' = Some mtime \<Longrightarrow>
        ?plan =
          (if fsetstat
           then [HandleTruncate filename n, HandleChown filename uid gid,
                 HandleChmod filename perm, HandleUtime filename atime mtime]
           else [ClientTruncate filename n, ClientChown filename uid gid,
                 ClientChmod filename perm, ClientUtime filename atime mtime])"
    by (simp add: category_calls_def size_calls_def owner_calls_def perm_calls_def time_calls_def)
  have own: "dom attrs = {''uid'', ''gid''} \<Longrightarrow>
        \<exists>uid gid. attrs ''uid'' = Some uid \<and> attrs ''gid'' = Some gid
           \<and> ?plan = [if fsetstat then HandleChown filename uid gid
                else ClientChown filename uid gid]"
  proof -
    assume d: "dom attrs = {''uid'', ''gid''}"
    then have "''uid'' \<in> dom attrs" and "''gid'' \<in> dom attrs"
      by simp_all
    then obtain uid gid where u: "attrs ''uid'' = Some uid" "attrs ''gid'' = Some gid"
      by (auto simp only: domIff not_None_eq)
    from d have "attrs ''size'' = None" "attrs ''perm'' = None" "attrs ''atime'' = None"
      by (intro absent_key; simp)+
    with u show ?thesis
      by (simp add: category_calls_def size_calls_def owner_calls_def perm_calls_def time_calls_def)
  qed
  have prm: "dom attrs = {''perm''} \<Longrightarrow>
        \<exists>perm. attrs ''perm'' = Some perm
           \<and> ?plan = [if fsetstat then HandleChmod filename perm else ClientChmod filename perm]"
  proof -
    assume d: "dom attrs = {''perm''}"
    then have "''perm'' \<in> dom attrs"
      by simp
    then obtain perm where u: "attrs ''perm'' = Some perm"
      by (auto simp only: domIff not_None_eq)
    from d have "attrs ''size'' = None" "attrs ''uid'' = None" "attrs ''atime'' = None"
      by (intro absent_key; simp)+
    with u show ?thesis
      by (simp add: category_calls_def size_calls_def owner_calls_def perm_calls_def time_calls_def)
  qed
  show ?thesis
    using ok fail full own prm
    by (intro conjI impI setstat_run_calls owner_calls_incomplete) blast+
qed

theorem setstat_applies_categories_in_order_witness:
  "dom [''uid'' \<mapsto> IntV 1000, ''gid'' \<mapsto> IntV 100] = {''uid'', ''gid''}
   \<and> setstat scripted_remote (Path ''f'') [''uid'' \<mapsto> IntV 1000, ''gid'' \<mapsto> IntV 100] False
        (start [])
       = (Inr (), \<lparr>trace = [ClientChown (Path ''f'') (IntV 1000) (IntV 100)], world = []\<rparr>)
   \<and> dom [''perm'' \<mapsto> IntV 420] = {''perm''}
   \<and> setstat scripted_remote (Handle 3) [''perm'' \<mapsto> IntV 420] True (start [])
       = (Inr (), \<lparr>trace = [HandleChmod (Handle 3) (IntV 420)], world = []\<rparr>)
   \<and> setstat scripted_remote (Path ''f'') [''uid'' \<mapsto> IntV 1000, ''perm'' \<mapsto> IntV 420] False
        (start [])
       = (Inr (), \<lparr>trace = [ClientChmod (Path ''f'') (IntV 420)], world = []\<rparr>)
   \<and> setstat scripted_remote (Path ''f'') [''size'' \<mapsto> IntV 0, ''perm'' \<mapsto> IntV 420] False
        (start [Inl (IOError [IntV 13, StrV ''Permission denied''])])
       = (Inl (OSError [IntV 13, StrV ''Permission denied'']),
          \<lparr>trace = [ClientTruncate (Path ''f'') (IntV 0)], world = []\<rparr>)"
  using setstat_applies_categories_in_order
      [where R = scripted_remote and filename = "Path ''f''"
        and attrs = "[''uid'' \<mapsto> IntV 1000, ''gid'' \<mapsto> IntV 100]" and fsetstat = False
        and s = "start []"]
    setstat_applies_categories_in_order
      [where R = scripted_remote and filename = "Handle 3"
        and attrs = "[''perm'' \<mapsto> IntV 420]" and fsetstat = True and s = "start []"]
  by (auto simp: setstat_run_calls category_calls_def size_calls_def owner_calls_def
      perm_calls_def time_calls_def exception_wrapper_def exn_bind_def call_remote_def
      succeed_def scripted_remote_def start_def)

text \<open>
  C9. When no category has its full key set (no size, not both uid and gid, no perm,
  not both atime and mtime; the empty set among them), \<open>setstat\<close> makes no call,
  returns normally and leaves the environment as it was.
\<close>

theorem setstat_without_complete_category:
  assumes "attrs ''size'' = None" and "attrs ''uid'' = None \<or> attrs ''gid'' = None"
    and "attrs ''perm'' = None" and "attrs ''atime'' = None \<or> attrs ''mtime'' = None"
  shows "setstat R filename attrs fsetstat s = (Inr (), s)"
proof -
  have "category_calls filename attrs fsetstat = []"
    using assms
    by (simp add: category_calls_def size_calls_def perm_calls_def owner_calls_incomplete
        time_calls_incomplete)
  then show ?thesis
    by (simp add: setstat_run_calls exception_wrapper_def succeed_def)
qed

theorem setstat_without_complete_category_witness:
  "setstat scripted_remote (Path ''f'') Map.empty False
       (start [Inl (IOError [IntV 13, StrV ''Permission denied''])])
     = (Inr (), start [Inl (IOError [IntV 13, StrV ''Permission denied''])])
   \<and> setstat scripted_remote (Handle 3) [''uid'' \<mapsto> IntV 1000, ''mtime'' \<mapsto> IntV 5] True
       (start [Inl (IOError [IntV 13, StrV ''Permission denied''])])
     = (Inr (), start [Inl (IOError [IntV 13, StrV ''Permission denied''])])"
  using setstat_without_complete_category
      [where attrs = Map.empty and R = scripted_remote and filename = "Path ''f''"
        and fsetstat = False and s = "start [Inl (IOError [IntV 13, StrV ''Permission denied''])]"]
    setstat_without_complete_category
      [where attrs = "[''uid'' \<mapsto> IntV 1000, ''mtime'' \<mapsto> IntV 5]" and R = scripted_remote
        and filename = "Handle 3" and fsetstat = True
        and s = "start [Inl (IOError [IntV 13, StrV ''Permission denied''])]"]
  by simp

section \<open>opendir: theorems\<close>

lemma drain_Generator: "drain (Generator fs) = (map encode fs, Generator [])"
  by (induction fs) (simp_all add: drain.simps [of "Generator []"] drain.simps [of "Generator (f # fs)" for f fs])

lemma opendir_result:
  "R (ClientListdir filename) (world s) = (r, w) \<Longrightarrow>
   opendir R filename s =
     (case r of
        Inl e \<Rightarrow> Inl (normalized e)
      | Inr (Names fs) \<Rightarrow> Inr (Generator (fs @ [''.'', ''..'']))
      | Inr _ \<Rightarrow> Inl (OtherError ''TypeError''),
      \<lparr>trace = trace s @ [ClientListdir filename], world = w\<rparr>)"
  by (simp add: opendir_def opendir_method_def exn_bind_def call_remote_def names_of_def
      succeed_def raise_def exception_wrapper_def split: sum.splits reply.splits exn.splits)

text \<open>
  C6. \<open>opendir\<close> makes exactly one call, the client's listing of the path. When the
  listing answers with names, the result is a generator that yields, in order, the
  encoded names of the listing followed by the encoded \<open>.\<close> and \<open>..\<close>, and is
  exhausted after them; a listing of \<open>a\<close>, \<open>b\<close> yields \<open>a\<close>, \<open>b\<close>, \<open>.\<close>, \<open>..\<close>.
\<close>

theorem opendir_yields_listing_then_dots:
  "trace (snd (opendir R filename s)) = trace s @ [ClientListdir filename]
   \<and> (R (ClientListdir filename) (world s) = (Inr (Names fs), w) \<longrightarrow>
        (\<exists>g. opendir R filename s =
               (Inr g, \<lparr>trace = trace s @ [ClientListdir filename], world = w\<rparr>)
           \<and> fst (drain g) = map encode fs @ [encode ''.'', encode ''..'']
           \<and> next_item (snd (drain g)) = None))"
proof -
  obtain r w' where rw: "R (ClientListdir filename) (world s) = (r, w')"
    by (cases "R (ClientListdir filename) (world s)")
  have "trace (snd (opendir R filename s)) = trace s @ [ClientListdir filename]"
    using rw by (simp add: opendir_result)
  moreover have "R (ClientListdir filename) (world s) = (Inr (Names fs), w) \<Longrightarrow>
        (\<exists>g. opendir R filename s =
               (Inr g, \<lparr>trace = trace s @ [ClientListdir filename], world = w\<rparr>)
           \<and> fst (drain g) = map encode fs @ [encode ''.'', encode ''..'']
           \<and> next_item (snd (drain g)) = None)"
    by (simp add: opendir_result drain_Generator)
  ultimately show ?thesis by blast
qed

theorem opendir_yields_listing_then_dots_witness:
  "scripted_remote (ClientListdir ''/srv'') (world (start [Inr (Names [''a'', ''b''])]))
       = (Inr (Names [''a'', ''b'']), [])
   \<and> opendir scripted_remote ''/srv'' (start [Inr (Names [''a'', ''b''])])
       = (Inr (Generator [''a'', ''b'', ''.'', ''..'']),
          \<lparr>trace = [ClientListdir ''/srv''], world = []\<rparr>)
   \<and> drain (Generator [''a'', ''b'', ''.'', ''..''])
       = ([Bytes ''a'', Bytes ''b'', Bytes ''.'', Bytes ''..''], Generator [])"
  using opendir_yields_listing_then_dots [where R = scripted_remote and filename = "''/srv''"
      and s = "start [Inr (Names [''a'', ''b''])]" and fs = "[''a'', ''b'']" and w = "[]"]
  by (simp add: opendir_result drain_Generator scripted_remote_def start_def encode_def)

section \<open>open: theorems\<close>

text \<open>
  C7. The mode argument has no influence: \<open>flags_to_mode\<close> gives the same token for any
  two modes, and \<open>open\<close> with either mode is the same action, so the creation mode is
  never forwarded to the client.
\<close>

theorem mode_argument_is_ignored:
  "flags_to_mode os flags m = flags_to_mode os flags m'
   \<and> open_file R os filename flags m = open_file R os filename flags m'"
  by (simp add: flags_to_mode_def open_file_def open_method_def)

theorem mode_argument_is_ignored_witness:
  "flags_to_mode posix 66 420 = ''w+'' \<and> flags_to_mode posix 66 511 = ''w+''
   \<and> open_file scripted_remote posix ''f'' 66 420 (start [Inr (File 7)])
      = (Inr (File 7), \<lparr>trace = [ClientOpen ''f'' ''w+''], world = []\<rparr>)
   \<and> open_file scripted_remote posix ''f'' 66 511 (start [Inr (File 7)])
      = (Inr (File 7), \<lparr>trace = [ClientOpen ''f'' ''w+''], world = []\<rparr>)"
  using mode_argument_is_ignored [where os = posix and flags = 66 and m = 420 and m' = 511
      and R = scripted_remote and filename = "''f''"]
  by (simp add: flags_to_mode_def open_file_def open_method_def posix_def truthy_def py_and_def
      py_or_def call_remote_def exception_wrapper_def scripted_remote_def start_def)

section \<open>stat with both flags: theorems\<close>




section \<open>symlink: theorems\<close>

text \<open>
  C10. \<open>symlink linkpath targetpath\<close> makes one call, the client's symlink with the two
  arguments in the other order, target first and link second, and reports what that
  call answers.
\<close>

theorem symlink_swaps_arguments:
  "symlink R linkpath targetpath s =
     (map_sum normalized (\<lambda>_. ()) (fst (R (ClientSymlink targetpath linkpath) (world s))),
      \<lparr>trace = trace s @ [ClientSymlink targetpath linkpath],
       world = snd (R (ClientSymlink targetpath linkpath) (world s))\<rparr>)"
proof -
  obtain r w where rw: "R (ClientSymlink targetpath linkpath) (world s) = (r, w)"
    by (cases "R (ClientSymlink targetpath linkpath) (world s)")
  then show ?thesis
    by (cases r)
      (simp_all add: symlink_def symlink_method_def forward_result exception_wrapper_result)
qed

theorem symlink_swaps_arguments_witness:
  "symlink scripted_remote ''/home/u/link'' ''/srv/target'' (start [Inr Nothing])
     = (Inr (), \<lparr>trace = [ClientSymlink ''/srv/target'' ''/home/u/link''], world = []\<rparr>)"
  using symlink_swaps_arguments [where R = scripted_remote and linkpath = "''/home/u/link''"
      and targetpath = "''/srv/target''" and s = "start [Inr Nothing]"]
  by (simp add: scripted_remote_def start_def)

section \<open>Error normalizer: theorems\<close>

lemma run_calls_first_failure:
  "fst (run_calls R cs s) =
     (case first_failure R cs (world s) of None \<Rightarrow> Inr () | Some e \<Rightarrow> Inl e)"
proof (induction cs arbitrary: s)
  case Nil
  then show ?case by (simp add: succeed_def)
next
  case (Cons c cs)
  obtain r w where rw: "R c (world s) = (r, w)"
    by (cases "R c (world s)")
  show ?case
  proof (cases r)
    case (Inl e)
    with rw show ?thesis by (simp add: exn_bind_def call_remote_def)
  next
    case (Inr v)
    with rw Cons.IH [of "\<lparr>trace = trace s @ [c], world = w\<rparr>"] show ?thesis
      by (simp add: exn_bind_def call_remote_def)
  qed
qed

lemma wrapped_forward:
  "R c (world s) = (Inl e, w) \<Longrightarrow>
   exception_wrapper (exn_bind (call_remote R c) f) s =
     (Inl (normalized e), \<lparr>trace = trace s @ [c], world = w\<rparr>)"
  by (rule stat_query_fails) (simp add: call_remote_def)

lemma wrapped_call:
  "R c (world s) = (Inl e, w) \<Longrightarrow>
   exception_wrapper (call_remote R c) s =
     (Inl (normalized e), \<lparr>trace = trace s @ [c], world = w\<rparr>)"
  by (simp add: exception_wrapper_result call_remote_def)

text \<open>
  C2, as stated, fails. The wrapper catches \<^verbatim>\<open>IOError\<close> only, so an exception of
  another class that the client raises on \<^verbatim>\<open>rm\<close> reaches the caller as it is. An
  \<^verbatim>\<open>IOError\<close> that is no \<^verbatim>\<open>OSError\<close> is rebuilt from its errno and strerror alone, so
  the text of \<^verbatim>\<open>IOError('Failure')\<close> does not reach the caller. And \<^verbatim>\<open>read\<close> is not wrapped,
  so an \<^verbatim>\<open>IOError\<close> that is no \<^verbatim>\<open>OSError\<close> leaves it unchanged.
\<close>

theorem unified_error_counterexample:
  "scripted_remote (ClientRemove ''gone'') [Inl (OtherError ''SSHException'')]
     = (Inl (OtherError ''SSHException''), [])
   \<and> fst (rm scripted_remote ''gone'' (start [Inl (OtherError ''SSHException'')]))
     = Inl (OtherError ''SSHException'')
   \<and> \<not> os_error_family (OtherError ''SSHException'')
   \<and> scripted_remote (ClientRemove ''gone'') [Inl (IOError [StrV ''Failure''])]
     = (Inl (IOError [StrV ''Failure'']), [])
   \<and> fst (rm scripted_remote ''gone'' (start [Inl (IOError [StrV ''Failure''])]))
     = Inl (OSError [NoneV, NoneV])
   \<and> scripted_remote (HandleRead 3 16) [Inl (IOError [IntV 5, StrV ''Input/output error''])]
     = (Inl (IOError [IntV 5, StrV ''Input/output error'']), [])
   \<and> fst (read scripted_remote 3 0 16
          (start [Inr Nothing, Inl (IOError [IntV 5, StrV ''Input/output error''])]))
     = Inl (IOError [IntV 5, StrV ''Input/output error''])
   \<and> \<not> os_error_family (IOError [IntV 5, StrV ''Input/output error''])"
  by (simp add: rm_def rm_method_def read_def exception_wrapper_def exn_bind_def call_remote_def
      succeed_def scripted_remote_def start_def)

text \<open>
  C2, amended. For each operation under the wrapper (\<open>stat\<close>, \<open>setstat\<close>, \<open>opendir\<close>,
  \<open>open\<close>, \<open>mkdir\<close>, \<open>rmdir\<close>, \<open>rm\<close>, \<open>rename\<close>, \<open>symlink\<close>, \<open>readlink\<close>, \<open>close\<close>), a
  failure that the remote client raises as an \<^verbatim>\<open>IOError\<close> or an \<^verbatim>\<open>OSError\<close> reaches the
  caller in the \<^verbatim>\<open>OSError\<close> family with the same errno and strerror: an \<^verbatim>\<open>OSError\<close> as it
  is, an \<^verbatim>\<open>IOError\<close> rebuilt from these two attributes. For \<open>stat\<close> in its default variant
  the failure is that of the lstat fallback; for \<open>setstat\<close> it is that of the first
  category call the client fails. In particular such a failure of the client's
  \<^verbatim>\<open>remove\<close> is what \<open>rm\<close> reports, after that one call.
\<close>

theorem wrapped_operations_raise_os_error:
  fixes R :: "'w remote"
  assumes "e = IOError args \<or> e = OSError args"
  shows "os_error_family (normalized e)
    \<and> errno (normalized e) = errno e \<and> strerror (normalized e) = strerror e
    \<and> (e = OSError args \<longrightarrow> normalized e = e)
    \<and> (R (HandleStat operand) (world s) = (Inl e, w) \<longrightarrow>
          stat R os stl operand parent False True s =
            (Inl (normalized e), \<lparr>trace = trace s @ [HandleStat operand], world = w\<rparr>))
    \<and> (R (ClientLstat operand) (world s) = (Inl e, w) \<longrightarrow>
          stat R os stl operand parent True fstat s =
            (Inl (normalized e), \<lparr>trace = trace s @ [ClientLstat operand], world = w\<rparr>))
    \<and> (path_join os [] p = p
          \<and> t = Path (case parent of None \<Rightarrow> p | Some d \<Rightarrow> path_join os d p)
          \<and> R (ClientStat t) (world s) = (Inl e', wa) \<and> R (ClientLstat t) wa = (Inl e, w) \<longrightarrow>
          stat R os stl (Path p) parent False False s =
            (Inl (normalized e),
             \<lparr>trace = trace s @ [ClientStat t, ClientLstat t], world = w\<rparr>))
    \<and> (first_failure R (category_calls operand attrs fsetstat) (world s) = Some e \<longrightarrow>
          fst (setstat R operand attrs fsetstat s) = Inl (normalized e))
    \<and> (R (ClientListdir filename) (world s) = (Inl e, w) \<longrightarrow>
          opendir R filename s =
            (Inl (normalized e), \<lparr>trace = trace s @ [ClientListdir filename], world = w\<rparr>))
    \<and> (R (ClientOpen filename (flags_to_mode os flags mode)) (world s) = (Inl e, w) \<longrightarrow>
          open_file R os filename flags mode s =
            (Inl (normalized e),
             \<lparr>trace = trace s @ [ClientOpen filename (flags_to_mode os flags mode)],
              world = w\<rparr>))
    \<and> (R (ClientMkdir filename mode) (world s) = (Inl e, w) \<longrightarrow>
          mkdir R filename mode s =
            (Inl (normalized e), \<lparr>trace = trace s @ [ClientMkdir filename mode], world = w\<rparr>))
    \<and> (R (ClientRmdir filename) (world s) = (Inl e, w) \<longrightarrow>
          rmdir R filename s =
            (Inl (normalized e), \<lparr>trace = trace s @ [ClientRmdir filename], world = w\<rparr>))
    \<and> (R (ClientRemove filename) (world s) = (Inl e, w) \<longrightarrow>
          rm R filename s =
            (Inl (normalized e), \<lparr>trace = trace s @ [ClientRemove filename], world = w\<rparr>))
    \<and> (R (ClientRename oldpath newpath) (world s) = (Inl e, w) \<longrightarrow>
          rename R oldpath newpath s =
            (Inl (normalized e),
             \<lparr>trace = trace s @ [ClientRename oldpath newpath], world = w\<rparr>))
    \<and> (R (ClientSymlink targetpath linkpath) (world s) = (Inl e, w) \<longrightarrow>
          symlink R linkpath targetpath s =
            (Inl (normalized e),
             \<lparr>trace = trace s @ [ClientSymlink targetpath linkpath], world = w\<rparr>))
    \<and> (R (ClientReadlink filename) (world s) = (Inl e, w) \<longrightarrow>
          readlink R filename s =
            (Inl (normalized e), \<lparr>trace = trace s @ [ClientReadlink filename], world = w\<rparr>))
    \<and> (R (HandleClose handle) (world s) = (Inl e, w) \<longrightarrow>
          close R handle s =
            (Inl (normalized e), \<lparr>trace = trace s @ [HandleClose handle], world = w\<rparr>))"
proof -
  have family: "os_error_family (normalized e)"
    using assms by auto
  have attrs: "errno (normalized e) = errno e \<and> strerror (normalized e) = strerror e"
    using assms by auto
  have same: "e = OSError args \<longrightarrow> normalized e = e"
    by simp
  have default: "path_join os [] p = p
          \<and> t = Path (case parent of None \<Rightarrow> p | Some d \<Rightarrow> path_join os d p)
          \<and> R (ClientStat t) (world s) = (Inl e', wa) \<and> R (ClientLstat t) wa = (Inl e, w) \<longrightarrow>
          stat R os stl (Path p) parent False False s =
            (Inl (normalized e),
             \<lparr>trace = trace s @ [ClientStat t, ClientLstat t], world = w\<rparr>)"
  proof (intro impI, elim conjE)
    assume j: "path_join os [] p = p"
      and t: "t = Path (case parent of None \<Rightarrow> p | Some d \<Rightarrow> path_join os d p)"
      and a: "R (ClientStat t) (world s) = (Inl e', wa)"
      and b: "R (ClientLstat t) wa = (Inl e, w)"
    have op: "\<And>s' :: 'w remote_state. stat_operand os (Path p) parent s' = (Inr t, s')"
      using j t by (simp add: stat_operand_path)
    show "stat R os stl (Path p) parent False False s =
            (Inl (normalized e),
             \<lparr>trace = trace s @ [ClientStat t, ClientLstat t], world = w\<rparr>)"
      by (rule stat_fallback_fails [OF op a b])
  qed
  have setstat: "first_failure R (category_calls operand attrs fsetstat) (world s) = Some e \<longrightarrow>
          fst (setstat R operand attrs fsetstat s) = Inl (normalized e)"
    by (simp add: setstat_run_calls exception_wrapper_fst run_calls_first_failure)
  show ?thesis
    by (intro conjI family attrs [THEN conjunct1] attrs [THEN conjunct2] same default setstat impI)
      (simp_all add: stat_def stat_method_def opendir_def opendir_method_def open_file_def
        open_method_def mkdir_def mkdir_method_def rmdir_def rmdir_method_def rm_def
        rm_method_def rename_def rename_method_def symlink_def symlink_method_def
        readlink_def readlink_method_def close_def close_method_def
        wrapped_forward wrapped_call)
qed

theorem wrapped_operations_raise_os_error_witness:
  "(IOError [IntV 2, StrV ''No such file''] = IOError [IntV 2, StrV ''No such file'']
      \<or> IOError [IntV 2, StrV ''No such file''] = OSError [IntV 2, StrV ''No such file''])
   \<and> scripted_remote (ClientRemove ''gone'')
         (world (start [Inl (IOError [IntV 2, StrV ''No such file''])]))
       = (Inl (IOError [IntV 2, StrV ''No such file'']), [])
   \<and> rm scripted_remote ''gone'' (start [Inl (IOError [IntV 2, StrV ''No such file''])])
       = (Inl (OSError [IntV 2, StrV ''No such file'']),
          \<lparr>trace = [ClientRemove ''gone''], world = []\<rparr>)
   \<and> errno (OSError [IntV 2, StrV ''No such file'']) = IntV 2
   \<and> strerror (OSError [IntV 2, StrV ''No such file'']) = StrV ''No such file''
   \<and> first_failure scripted_remote
         (category_calls (Path ''f'') [''size'' \<mapsto> IntV 0, ''perm'' \<mapsto> IntV 420] False)
         (world (start [Inr Nothing, Inl (IOError [IntV 2, StrV ''No such file''])]))
       = Some (IOError [IntV 2, StrV ''No such file''])
   \<and> fst (setstat scripted_remote (Path ''f'') [''size'' \<mapsto> IntV 0, ''perm'' \<mapsto> IntV 420] False
         (start [Inr Nothing, Inl (IOError [IntV 2, StrV ''No such file''])]))
       = Inl (OSError [IntV 2, StrV ''No such file''])"
  using wrapped_operations_raise_os_error
      [where e = "IOError [IntV 2, StrV ''No such file'']"
        and args = "[IntV 2, StrV ''No such file'']"
        and R = scripted_remote and filename = "''gone''"
        and s = "start [Inl (IOError [IntV 2, StrV ''No such file''])]" and w = "[]"]
    wrapped_operations_raise_os_error
      [where e = "IOError [IntV 2, StrV ''No such file'']"
        and args = "[IntV 2, StrV ''No such file'']"
        and R = scripted_remote and operand = "Path ''f''"
        and attrs = "[''size'' \<mapsto> IntV 0, ''perm'' \<mapsto> IntV 420]" and fsetstat = False
        and s = "start [Inr Nothing, Inl (IOError [IntV 2, StrV ''No such file''])]"]
  by (simp add: scripted_remote_def start_def category_calls_def size_calls_def owner_calls_def
      perm_calls_def time_calls_def)

end
